theory Spec2Isabelle
  imports Complex_Main "HOL-Library.Sublist"
begin

section \<open>JaTango voice product agent (agent/agent.py)\<close>

text \<open>
  The agent exposes two tools, \<open>create_product\<close> and \<open>add_product_to_show\<close>. Both read
  the room of the current job, the first one posts a row to the products table over
  HTTP, the second one sends an RPC to the broadcaster. The model keeps the source's
  control flow: every exception of the source is a value of \<open>py_exception\<close>, the two
  fields of the agent object are a record that the tools return updated, and every
  network call a tool makes is appended to a trace of effects.

  Python's \<open>float\<close> is the type parameter \<open>'f\<close>: the code never computes with a float,
  it only stores it in the payload and formats it, so the two formatting operations it
  uses are parameters (\<open>format_2f\<close>, \<open>str_float\<close>). A Python \<open>int\<close> is an \<open>int\<close>, a
  string is a HOL string, a dict is the list of its items in iteration order.
\<close>

subsection \<open>Values\<close>

datatype 'f json =
    JNull
  | JBool bool
  | JInt int
  | JFloat 'f
  | JStr string
  | JArr "'f json list"
  | JObj "(string \<times> 'f json) list"

datatype py_exception =
    HTTPStatusError int
  | HTTPTransportError string
  | JSONDecodeError string
  | IndexError
  | AttributeError string
  | JobContextError string
  | RpcError string

text \<open>What the interpreter and the libraries print; none of it is computed by agent.py.\<close>

record 'f py_format =
  format_2f :: "'f \<Rightarrow> string"
  str_float :: "'f \<Rightarrow> string"
  str_container :: "'f json \<Rightarrow> string"
  http_status_message :: "int \<Rightarrow> string"

subsection \<open>Room, network and agent state\<close>

datatype ParticipantKind =
    PARTICIPANT_KIND_STANDARD
  | PARTICIPANT_KIND_INGRESS
  | PARTICIPANT_KIND_EGRESS
  | PARTICIPANT_KIND_SIP
  | PARTICIPANT_KIND_AGENT

record participant =
  kind :: ParticipantKind

text \<open>\<open>remote_participants\<close> is a dict; its items are listed in iteration order.\<close>

record room =
  remote_participants :: "(string \<times> participant) list"

record 'f http_request =
  url :: string
  headers :: "(string \<times> string) list"
  json_payload :: "'f json"

record 'f http_response =
  status_code :: int
  json_body :: "py_exception + 'f json"

record rpc_request =
  destination_identity :: string
  rpc_method :: string
  payload :: string
  response_timeout :: real

datatype 'f effect =
    HttpPost "'f http_request"
  | PerformRpc rpc_request

record 'f environment =
  SUPABASE_URL :: string
  SUPABASE_SERVICE_ROLE_KEY :: string
  get_job_context :: "py_exception + room"
  http_post :: "'f http_request \<Rightarrow> py_exception + 'f http_response"
  perform_rpc :: "rpc_request \<Rightarrow> py_exception + string"

record 'f ProductAssistant =
  last_product_id :: "'f json option"
  last_product_name :: "string option"

definition ProductAssistant_init :: "'f ProductAssistant" where
  "ProductAssistant_init = \<lparr>last_product_id = None, last_product_name = None\<rparr>"

subsection \<open>Printing\<close>

definition digit_char :: "nat \<Rightarrow> char" where
  "digit_char d = char_of (48 + d)"

fun str_nat :: "nat \<Rightarrow> string" where
  "str_nat n = (if n < 10 then [digit_char n] else str_nat (n div 10) @ [digit_char (n mod 10)])"

declare str_nat.simps [simp del]

definition str_int :: "int \<Rightarrow> string" where
  "str_int i = (if i < 0 then CHR ''-'' # str_nat (nat (- i)) else str_nat (nat i))"

fun type_name :: "'f json \<Rightarrow> string" where
  "type_name JNull = ''NoneType''"
| "type_name (JBool _) = ''bool''"
| "type_name (JInt _) = ''int''"
| "type_name (JFloat _) = ''float''"
| "type_name (JStr _) = ''str''"
| "type_name (JArr _) = ''list''"
| "type_name (JObj _) = ''dict''"

fun py_str :: "'f py_format \<Rightarrow> 'f json \<Rightarrow> string" where
  "py_str F JNull = ''None''"
| "py_str F (JBool b) = (if b then ''True'' else ''False'')"
| "py_str F (JInt i) = str_int i"
| "py_str F (JFloat x) = str_float F x"
| "py_str F (JStr s) = s"
| "py_str F (JArr xs) = str_container F (JArr xs)"
| "py_str F (JObj kvs) = str_container F (JObj kvs)"

fun str_exception :: "'f py_format \<Rightarrow> py_exception \<Rightarrow> string" where
  "str_exception F (HTTPStatusError st) = http_status_message F st"
| "str_exception F (HTTPTransportError m) = m"
| "str_exception F (JSONDecodeError m) = m"
| "str_exception F IndexError = ''list index out of range''"
| "str_exception F (AttributeError t) =
     [CHR 0x27] @ t @ [CHR 0x27] @ '' object has no attribute '' @ [CHR 0x27] @ ''get'' @ [CHR 0x27]"
| "str_exception F (JobContextError m) = m"
| "str_exception F (RpcError m) = m"

subsection \<open>supabase_insert_product\<close>

definition insert_headers :: "'f environment \<Rightarrow> (string \<times> string) list" where
  "insert_headers E =
     [(''apikey'', SUPABASE_SERVICE_ROLE_KEY E),
      (''Authorization'', ''Bearer '' @ SUPABASE_SERVICE_ROLE_KEY E),
      (''Content-Type'', ''application/json''),
      (''Prefer'', ''return=representation'')]"

definition insert_payload :: "string \<Rightarrow> string \<Rightarrow> 'f \<Rightarrow> 'f \<Rightarrow> int \<Rightarrow> 'f json" where
  "insert_payload seller_id name weight cost quantity =
     JObj [(''name'', JStr name),
           (''price'', JFloat cost),
           (''weight'', JFloat weight),
           (''weight_unit'', JStr ''oz''),
           (''quantity_in_stock'', JInt quantity),
           (''seller_id'', JStr seller_id),
           (''image'', JStr ''''),
           (''description'', JStr (name @ '' - added via voice'')),
           (''images'', JArr []),
           (''colors'', JArr []),
           (''sizes'', JArr []),
           (''variants'', JArr [])]"

definition insert_request ::
  "'f environment \<Rightarrow> string \<Rightarrow> string \<Rightarrow> 'f \<Rightarrow> 'f \<Rightarrow> int \<Rightarrow> 'f http_request" where
  "insert_request E seller_id name weight cost quantity =
     \<lparr>url = SUPABASE_URL E @ ''/rest/v1/products'',
      headers = insert_headers E,
      json_payload = insert_payload seller_id name weight cost quantity\<rparr>"

text \<open>\<open>resp.raise_for_status()\<close> of httpx raises unless the status is 2xx.\<close>

definition raise_for_status :: "'f http_response \<Rightarrow> py_exception + unit" where
  "raise_for_status resp =
     (if 200 \<le> status_code resp \<and> status_code resp \<le> 299 then Inr ()
      else Inl (HTTPStatusError (status_code resp)))"

text \<open>\<open>data[0] if isinstance(data, list) else data\<close>\<close>

fun first_if_list :: "'f json \<Rightarrow> py_exception + 'f json" where
  "first_if_list (JArr []) = Inl IndexError"
| "first_if_list (JArr (x # _)) = Inr x"
| "first_if_list data = Inr data"

definition supabase_insert_product ::
  "'f environment \<Rightarrow> string \<Rightarrow> string \<Rightarrow> 'f \<Rightarrow> 'f \<Rightarrow> int
     \<Rightarrow> (py_exception + 'f json) \<times> 'f effect list" where
  "supabase_insert_product E seller_id name weight cost quantity =
     (let req = insert_request E seller_id name weight cost quantity in
      (case http_post E req of
         Inl e \<Rightarrow> Inl e
       | Inr resp \<Rightarrow>
           (case raise_for_status resp of
              Inl e \<Rightarrow> Inl e
            | Inr _ \<Rightarrow>
                (case json_body resp of
                   Inl e \<Rightarrow> Inl e
                 | Inr data \<Rightarrow> first_if_list data)),
       [HttpPost req]))"

subsection \<open>get_seller_id_from_room\<close>

text \<open>The loop: an agent is skipped (\<open>continue\<close>), any other participant is returned.\<close>

fun seller_scan :: "(string \<times> participant) list \<Rightarrow> string option" where
  "seller_scan [] = None"
| "seller_scan ((identity, p) # rest) =
     (if kind p = PARTICIPANT_KIND_AGENT then seller_scan rest else Some identity)"

text \<open>Any exception inside the \<open>try\<close> is swallowed and the function returns None.\<close>

definition get_seller_id_from_room :: "'f environment \<Rightarrow> string option" where
  "get_seller_id_from_room E =
     (case get_job_context E of
        Inl _ \<Rightarrow> None
      | Inr ctx_room \<Rightarrow> seller_scan (remote_participants ctx_room))"

subsection \<open>ProductAssistant.create_product\<close>

text \<open>\<open>product.get("id", "unknown")\<close>: a dict answers, anything else has no \<open>get\<close>.\<close>

fun get_id :: "'f json \<Rightarrow> py_exception + 'f json" where
  "get_id (JObj kvs) =
     (case map_of kvs ''id'' of None \<Rightarrow> Inr (JStr ''unknown'') | Some v \<Rightarrow> Inr v)"
| "get_id v = Inl (AttributeError (type_name v))"

definition created_message ::
  "'f py_format \<Rightarrow> string \<Rightarrow> 'f \<Rightarrow> 'f \<Rightarrow> int \<Rightarrow> 'f json \<Rightarrow> string" where
  "created_message F name weight price quantity product_id =
     ''Product created successfully. '' @
     ''Name: '' @ name @ '', Price: $'' @ format_2f F price @
     '', Weight: '' @ str_float F weight @ ''oz, '' @
     ''Quantity: '' @ str_int quantity @ ''. Product ID: '' @ py_str F product_id"

definition create_product ::
  "'f py_format \<Rightarrow> 'f environment \<Rightarrow> 'f ProductAssistant
     \<Rightarrow> string \<Rightarrow> 'f \<Rightarrow> 'f \<Rightarrow> int
     \<Rightarrow> string \<times> 'f ProductAssistant \<times> 'f effect list" where
  "create_product F E self name weight price quantity =
     (case get_seller_id_from_room E of
        None \<Rightarrow> (''Error: Could not determine seller identity.'', self, [])
      | Some seller_id \<Rightarrow>
          if seller_id = [] then (''Error: Could not determine seller identity.'', self, [])
          else
            (case supabase_insert_product E seller_id name weight price quantity of
               (Inl e, tr) \<Rightarrow> (''Error creating product: '' @ str_exception F e, self, tr)
             | (Inr product, tr) \<Rightarrow>
                 (case get_id product of
                    Inl e \<Rightarrow> (''Error creating product: '' @ str_exception F e, self, tr)
                  | Inr product_id \<Rightarrow>
                      (created_message F name weight price quantity product_id,
                       self\<lparr>last_product_id := Some product_id,
                            last_product_name := Some name\<rparr>,
                       tr))))"

subsection \<open>json.dumps of a dict of strings\<close>

text \<open>
  \<open>json.dumps\<close> with its defaults (\<open>ensure_ascii=True\<close>, separators \<open>", "\<close> and
  \<open>": "\<close>) on a dict whose keys and values are strings. A character is a code point
  below 256: the quote and the backslash get a backslash, backspace, form feed, newline,
  carriage return and tab their short escape, every other character outside
  \<open>' '..'~'\<close> is written \<open>\u00xx\<close> in lower-case hexadecimal.
\<close>

definition hex_digit :: "nat \<Rightarrow> char" where
  "hex_digit d = (if d < 10 then char_of (48 + d) else char_of (87 + d))"

definition escape_char :: "char \<Rightarrow> string" where
  "escape_char c =
     (if c = CHR 0x22 then [CHR 0x5C, CHR 0x22]
      else if c = CHR 0x5C then [CHR 0x5C, CHR 0x5C]
      else if c = CHR 0x08 then [CHR 0x5C, CHR ''b'']
      else if c = CHR 0x0C then [CHR 0x5C, CHR ''f'']
      else if c = CHR 0x0A then [CHR 0x5C, CHR ''n'']
      else if c = CHR 0x0D then [CHR 0x5C, CHR ''r'']
      else if c = CHR 0x09 then [CHR 0x5C, CHR ''t'']
      else if 32 \<le> (of_char c :: nat) \<and> (of_char c :: nat) \<le> 126 then [c]
      else [CHR 0x5C, CHR ''u'', CHR ''0'', CHR ''0'',
            hex_digit ((of_char c :: nat) div 16), hex_digit ((of_char c :: nat) mod 16)])"

definition encode_basestring_ascii :: "string \<Rightarrow> string" where
  "encode_basestring_ascii s = CHR 0x22 # concat (map escape_char s) @ [CHR 0x22]"

fun dumps_items :: "(string \<times> string) list \<Rightarrow> string" where
  "dumps_items [] = []"
| "dumps_items [(k, v)] = encode_basestring_ascii k @ '': '' @ encode_basestring_ascii v"
| "dumps_items ((k, v) # kvs) =
     encode_basestring_ascii k @ '': '' @ encode_basestring_ascii v @ '', '' @ dumps_items kvs"

definition json_dumps :: "(string \<times> string) list \<Rightarrow> string" where
  "json_dumps kvs = ''{'' @ dumps_items kvs @ ''}''"

subsection \<open>ProductAssistant.add_product_to_show\<close>

text \<open>The loop: the first participant that is not an agent is stored, then \<open>break\<close>.\<close>

fun broadcaster_scan :: "string option \<Rightarrow> (string \<times> participant) list \<Rightarrow> string option" where
  "broadcaster_scan broadcaster_identity [] = broadcaster_identity"
| "broadcaster_scan broadcaster_identity ((identity, p) # rest) =
     (if kind p \<noteq> PARTICIPANT_KIND_AGENT then Some identity
      else broadcaster_scan broadcaster_identity rest)"

text \<open>\<open>self._last_product_name or "Product"\<close>\<close>

definition name_or_Product :: "'f ProductAssistant \<Rightarrow> string" where
  "name_or_Product self =
     (case last_product_name self of
        None \<Rightarrow> ''Product''
      | Some n \<Rightarrow> if n = [] then ''Product'' else n)"

definition show_rpc :: "'f ProductAssistant \<Rightarrow> string \<Rightarrow> string \<Rightarrow> rpc_request" where
  "show_rpc self broadcaster_identity product_id =
     \<lparr>destination_identity = broadcaster_identity,
      rpc_method = ''addProductToShow'',
      payload = json_dumps [(''productId'', product_id), (''name'', name_or_Product self)],
      response_timeout = 10\<rparr>"

definition add_product_to_show ::
  "'f py_format \<Rightarrow> 'f environment \<Rightarrow> 'f ProductAssistant \<Rightarrow> string
     \<Rightarrow> string \<times> 'f ProductAssistant \<times> 'f effect list" where
  "add_product_to_show F E self product_id =
     (case get_job_context E of
        Inl e \<Rightarrow> (''Error adding product to show: '' @ str_exception F e, self, [])
      | Inr ctx_room \<Rightarrow>
          (case broadcaster_scan None (remote_participants ctx_room) of
             None \<Rightarrow> (''Error: No broadcaster found in the room.'', self, [])
           | Some broadcaster_identity \<Rightarrow>
               if broadcaster_identity = []
               then (''Error: No broadcaster found in the room.'', self, [])
               else
                 (let req = show_rpc self broadcaster_identity product_id in
                  (case perform_rpc E req of
                     Inl e \<Rightarrow>
                       (''Error adding product to show: '' @ str_exception F e, self,
                        [PerformRpc req])
                   | Inr response \<Rightarrow>
                       (''Product added to the live show carousel. '' @ response, self,
                        [PerformRpc req])))))"

subsection \<open>The two tools of the agent\<close>

datatype 'f tool_call =
    CreateProduct string 'f 'f int
  | AddProductToShow string

fun run_tool ::
  "'f py_format \<Rightarrow> 'f environment \<Rightarrow> 'f ProductAssistant \<Rightarrow> 'f tool_call
     \<Rightarrow> string \<times> 'f ProductAssistant \<times> 'f effect list" where
  "run_tool F E self (CreateProduct name weight price quantity) =
     create_product F E self name weight price quantity"
| "run_tool F E self (AddProductToShow product_id) = add_product_to_show F E self product_id"

subsection \<open>The lookup as the specification words it\<close>

text \<open>
  The identity of the first participant, in iteration order, whose kind is not agent;
  None when there is none.
\<close>

definition first_non_agent :: "(string \<times> participant) list \<Rightarrow> string option" where
  "first_non_agent ps =
     map_option fst (find (\<lambda>(identity, p). kind p \<noteq> PARTICIPANT_KIND_AGENT) ps)"

definition no_non_agent :: "room \<Rightarrow> bool" where
  "no_non_agent r = list_all (\<lambda>(identity, p). kind p = PARTICIPANT_KIND_AGENT) (remote_participants r)"

text \<open>The requests of a trace, by kind, and a field of a JSON object.\<close>

fun http_posts :: "'f effect list \<Rightarrow> 'f http_request list" where
  "http_posts [] = []"
| "http_posts (HttpPost req # es) = req # http_posts es"
| "http_posts (PerformRpc _ # es) = http_posts es"

fun rpc_calls :: "'f effect list \<Rightarrow> rpc_request list" where
  "rpc_calls [] = []"
| "rpc_calls (PerformRpc req # es) = req # rpc_calls es"
| "rpc_calls (HttpPost _ # es) = rpc_calls es"

fun object_field :: "'f json \<Rightarrow> string \<Rightarrow> 'f json option" where
  "object_field (JObj kvs) k = map_of kvs k"
| "object_field v k = None"

text \<open>The \<open>description\<close> members of the payloads a trace posted.\<close>

definition sent_descriptions :: "'f effect list \<Rightarrow> 'f json option list" where
  "sent_descriptions tr =
     map (\<lambda>req. object_field (json_payload req) ''description'') (http_posts tr)"

subsection \<open>Reading a JSON object of strings\<close>

text \<open>
  What "valid JSON" means for the RPC payload: a reader of the JSON grammar restricted to
  objects whose members are string literals. White space is allowed between the tokens, a
  string literal holds no raw control character, and an escape is one of the short
  escapes or \<open>\u\<close> with four hexadecimal digits. The reader returns the members in the
  order of the text, or None when the text is not such an object.
\<close>

definition hex_value :: "char \<Rightarrow> nat option" where
  "hex_value c =
     (let n = (of_char c :: nat) in
      if 48 \<le> n \<and> n \<le> 57 then Some (n - 48)
      else if 97 \<le> n \<and> n \<le> 102 then Some (n - 87)
      else if 65 \<le> n \<and> n \<le> 70 then Some (n - 55)
      else None)"

definition short_escape :: "char \<Rightarrow> char option" where
  "short_escape e =
     (if e = CHR 0x22 then Some (CHR 0x22)
      else if e = CHR 0x5C then Some (CHR 0x5C)
      else if e = CHR ''/'' then Some (CHR ''/'')
      else if e = CHR ''b'' then Some (CHR 0x08)
      else if e = CHR ''f'' then Some (CHR 0x0C)
      else if e = CHR ''n'' then Some (CHR 0x0A)
      else if e = CHR ''r'' then Some (CHR 0x0D)
      else if e = CHR ''t'' then Some (CHR 0x09)
      else None)"

datatype scan_state = Plain | Escaped | Hex nat nat

text \<open>
  Reads a string literal after its opening quote and returns its characters and the text
  after the closing quote. \<open>Hex k v\<close>: \<open>k\<close> digits are still to come, \<open>v\<close> is the value
  of the digits read.
\<close>

fun scan_string :: "scan_state \<Rightarrow> string \<Rightarrow> string \<Rightarrow> (string \<times> string) option" where
  "scan_string st acc [] = None"
| "scan_string Plain acc (c # cs) =
     (if c = CHR 0x22 then Some (rev acc, cs)
      else if c = CHR 0x5C then scan_string Escaped acc cs
      else if (of_char c :: nat) < 32 then None
      else scan_string Plain (c # acc) cs)"
| "scan_string Escaped acc (c # cs) =
     (if c = CHR ''u'' then scan_string (Hex 4 0) acc cs
      else (case short_escape c of
              None \<Rightarrow> None
            | Some d \<Rightarrow> scan_string Plain (d # acc) cs))"
| "scan_string (Hex k v) acc (c # cs) =
     (case hex_value c of
        None \<Rightarrow> None
      | Some h \<Rightarrow>
          if k = 1
          then (if 16 * v + h < 256 then scan_string Plain (char_of (16 * v + h) # acc) cs
                else None)
          else scan_string (Hex (k - 1) (16 * v + h)) acc cs)"

definition is_ws :: "char \<Rightarrow> bool" where
  "is_ws c = (c = CHR '' '' \<or> c = CHR 0x09 \<or> c = CHR 0x0A \<or> c = CHR 0x0D)"

definition skip_ws :: "string \<Rightarrow> string" where
  "skip_ws s = dropWhile is_ws s"

definition string_literal :: "string \<Rightarrow> (string \<times> string) option" where
  "string_literal s =
     (case skip_ws s of
        [] \<Rightarrow> None
      | c # cs \<Rightarrow> if c = CHR 0x22 then scan_string Plain [] cs else None)"

text \<open>The members after the opening brace; the fuel bounds the number of members.\<close>

fun members :: "nat \<Rightarrow> string \<Rightarrow> (string \<times> string) list option" where
  "members 0 s = None"
| "members (Suc n) s =
     (case string_literal s of
        None \<Rightarrow> None
      | Some (k, r1) \<Rightarrow>
          (case skip_ws r1 of
             [] \<Rightarrow> None
           | c1 # r2 \<Rightarrow>
               if c1 \<noteq> CHR '':'' then None
               else
                 (case string_literal r2 of
                    None \<Rightarrow> None
                  | Some (v, r3) \<Rightarrow>
                      (case skip_ws r3 of
                         [] \<Rightarrow> None
                       | c2 # r4 \<Rightarrow>
                           if c2 = CHR ''}'' then (if skip_ws r4 = [] then Some [(k, v)] else None)
                           else if c2 = CHR '','' then map_option ((#) (k, v)) (members n r4)
                           else None))))"

definition json_loads :: "string \<Rightarrow> (string \<times> string) list option" where
  "json_loads s =
     (case skip_ws s of
        [] \<Rightarrow> None
      | c # r \<Rightarrow>
          if c \<noteq> CHR ''{'' then None
          else
            (case skip_ws r of
               [] \<Rightarrow> None
             | c' # r' \<Rightarrow>
                 if c' = CHR ''}'' then (if skip_ws r' = [] then Some [] else None)
                 else members (length s) r))"

subsection \<open>Example rooms and endpoints\<close>

text \<open>
  Concrete inputs for the examples below, with floats as reals. \<open>example_format\<close> prints
  the two floats the examples use the way Python does (\<open>f"{12.5:.2f}"\<close> is \<open>12.50\<close>,
  \<open>f"{8.0}"\<close> is \<open>8.0\<close>).
\<close>

definition example_format :: "real py_format" where
  "example_format =
     \<lparr>format_2f = (\<lambda>x. if x = 12.5 then ''12.50'' else ''0.00''),
      str_float = (\<lambda>x. if x = 8 then ''8.0'' else ''0.0''),
      str_container = (\<lambda>v. ''[]''),
      http_status_message = (\<lambda>st. ''Server error '' @ str_int st)\<rparr>"

definition seller_room :: room where
  "seller_room =
     \<lparr>remote_participants =
        [(''agent-7'', \<lparr>kind = PARTICIPANT_KIND_AGENT\<rparr>),
         (''seller-1'', \<lparr>kind = PARTICIPANT_KIND_STANDARD\<rparr>),
         (''viewer-2'', \<lparr>kind = PARTICIPANT_KIND_STANDARD\<rparr>)]\<rparr>"

definition agent_only_room :: room where
  "agent_only_room =
     \<lparr>remote_participants = [(''agent-7'', \<lparr>kind = PARTICIPANT_KIND_AGENT\<rparr>)]\<rparr>"

definition example_env ::
  "room \<Rightarrow> (py_exception + real http_response) \<Rightarrow> (py_exception + string) \<Rightarrow> real environment" where
  "example_env r post_result rpc_result =
     \<lparr>SUPABASE_URL = ''https://db.example'',
      SUPABASE_SERVICE_ROLE_KEY = ''key'',
      get_job_context = Inr r,
      http_post = (\<lambda>req. post_result),
      perform_rpc = (\<lambda>req. rpc_result)\<rparr>"

definition created :: "real json \<Rightarrow> py_exception + real http_response" where
  "created body = Inr \<lparr>status_code = 201, json_body = Inr body\<rparr>"

section \<open>Properties\<close>

subsection \<open>The JSON text of a dict of strings reads back\<close>

lemma of_char_digit: "d < 16 \<Longrightarrow> (of_char (hex_digit d) :: nat) = (if d < 10 then 48 + d else 87 + d)"
  by (simp add: hex_digit_def)

lemma hex_value_hex_digit: "d < 16 \<Longrightarrow> hex_value (hex_digit d) = Some d"
  by (simp add: hex_value_def of_char_digit Let_def)

lemma hex_value_zero: "hex_value (CHR ''0'') = Some 0"
  by (simp add: hex_value_def)

lemma scan_escape_char:
  "scan_string Plain acc (escape_char c @ rest) = scan_string Plain (c # acc) rest"
proof -
  let ?n = "of_char c :: nat"
  have lt: "?n < 256" by simp
  have hi: "?n div 16 < 16" using lt by (simp add: less_mult_imp_div_less)
  have lo: "?n mod 16 < 16" by simp
  have recomposed: "char_of (16 * (?n div 16) + ?n mod 16) = c" by simp
  have special: "c = CHR 0x08 \<or> c = CHR 0x0C \<or> c = CHR 0x0A \<or> c = CHR 0x0D \<or> c = CHR 0x09
      \<Longrightarrow> ?n < 32" by auto
  show ?thesis
    using lt recomposed
    by (simp add: escape_char_def short_escape_def hex_value_zero
        hex_value_hex_digit[OF hi] hex_value_hex_digit[OF lo])
qed

lemma scan_concat:
  "scan_string Plain acc (concat (map escape_char s) @ CHR 0x22 # rest) = Some (rev acc @ s, rest)"
  by (induction s arbitrary: acc) (simp_all add: scan_escape_char)

lemma skip_ws_quote: "skip_ws (CHR 0x22 # s) = CHR 0x22 # s"
  by (simp add: skip_ws_def is_ws_def)

lemma skip_ws_space: "skip_ws (CHR '' '' # s) = skip_ws s"
  by (simp add: skip_ws_def is_ws_def)

lemma string_literal_encode:
  "string_literal (encode_basestring_ascii s @ rest) = Some (s, rest)"
  using scan_concat[of "[]" s rest]
  by (simp add: string_literal_def encode_basestring_ascii_def skip_ws_quote)

lemma string_literal_space: "string_literal (CHR '' '' # s) = string_literal s"
  by (simp add: string_literal_def skip_ws_space)

lemma members_space: "members n (CHR '' '' # s) = members n s"
  by (cases n) (simp_all add: string_literal_space)

lemma skip_ws_punct:
  "skip_ws (CHR '':'' # s) = CHR '':'' # s"
  "skip_ws (CHR '','' # s) = CHR '','' # s"
  "skip_ws (CHR ''}'' # s) = CHR ''}'' # s"
  "skip_ws (CHR ''{'' # s) = CHR ''{'' # s"
  "skip_ws [] = []"
  by (simp_all add: skip_ws_def is_ws_def)

lemma members_dumps_items:
  "kvs \<noteq> [] \<Longrightarrow> length kvs \<le> n \<Longrightarrow> members n (dumps_items kvs @ ''}'') = Some kvs"
proof (induction kvs arbitrary: n rule: dumps_items.induct)
  case 1
  then show ?case by simp
next
  case (2 k v)
  then obtain m where n: "n = Suc m" by (cases n) auto
  show ?case
    by (simp add: n string_literal_encode string_literal_space skip_ws_punct)
next
  case (3 k v kv kvs)
  then obtain m where n: "n = Suc m" by (cases n) auto
  with 3 have IH: "members m (dumps_items (kv # kvs) @ ''}'') = Some (kv # kvs)"
    by simp
  define tail where "tail = dumps_items (kv # kvs) @ ''}''"
  have unfolded: "dumps_items ((k, v) # kv # kvs) @ ''}'' =
      encode_basestring_ascii k @ '': '' @ encode_basestring_ascii v @ '', '' @ tail"
    by (simp add: tail_def)
  show ?case
    unfolding unfolded using IH[folded tail_def]
    by (simp add: n string_literal_encode string_literal_space skip_ws_punct members_space)
qed

lemma length_dumps_items: "length kvs \<le> length (dumps_items kvs)"
  by (induction kvs rule: dumps_items.induct) (simp_all add: encode_basestring_ascii_def)

lemma json_loads_dumps: "json_loads (json_dumps kvs) = Some kvs"
proof (cases kvs)
  case Nil
  then show ?thesis by (simp add: json_loads_def json_dumps_def skip_ws_punct)
next
  case (Cons kv rest)
  obtain k v where kv: "kv = (k, v)" by (cases kv)
  have start: "skip_ws (dumps_items kvs @ ''}'') = CHR 0x22 # tl (dumps_items kvs @ ''}'')"
    by (cases rest) (simp_all add: Cons kv encode_basestring_ascii_def skip_ws_quote)
  have fuel: "length kvs \<le> length (json_dumps kvs)"
    using length_dumps_items[of kvs] by (simp add: json_dumps_def)
  have "members (length (json_dumps kvs)) (dumps_items kvs @ ''}'') = Some kvs"
  proof (rule members_dumps_items)
    show "kvs \<noteq> []" by (simp add: Cons)
    show "length kvs \<le> length (json_dumps kvs)" by (rule fuel)
  qed
  then show ?thesis
    by (simp add: json_loads_def json_dumps_def skip_ws_punct start)
qed

subsection \<open>The two lookups\<close>

lemma seller_scan_first: "seller_scan ps = first_non_agent ps"
  by (induction ps) (auto simp: first_non_agent_def)

lemma broadcaster_scan_first: "broadcaster_scan None ps = first_non_agent ps"
  by (induction ps) (auto simp: first_non_agent_def)

lemma first_non_agent_none:
  "no_non_agent r \<Longrightarrow> first_non_agent (remote_participants r) = None"
  unfolding no_non_agent_def
  by (induction "remote_participants r" arbitrary: r)
     (auto simp: first_non_agent_def find_None_iff list_all_iff)

text \<open>
  C10. On one snapshot \<open>r\<close> of the room, the seller lookup of \<open>create_product\<close> and the
  broadcaster scan of \<open>add_product_to_show\<close> return the same value, and that value is
  the identity of the first participant, in iteration order, whose kind is not agent
  (None when there is none).
\<close>

theorem lookups_agree:
  "get_seller_id_from_room (E\<lparr>get_job_context := Inr r\<rparr>) =
     broadcaster_scan None (remote_participants r)
   \<and> broadcaster_scan None (remote_participants r) = first_non_agent (remote_participants r)"
  by (simp add: get_seller_id_from_room_def seller_scan_first broadcaster_scan_first)

subsection \<open>Rooms without a seller\<close>

text \<open>
  C3. When the room has no remote participant other than agents (an empty room
  included), \<open>create_product\<close> returns exactly
  "Error: Could not determine seller identity.", the agent's fields keep their values and
  the trace of network calls is empty: the persistence client is not invoked.
\<close>

theorem create_product_no_seller:
  assumes "get_job_context E = Inr r" and "no_non_agent r"
  shows "create_product F E self name weight price quantity =
           (''Error: Could not determine seller identity.'', self, [])"
  using assms
  by (simp add: create_product_def get_seller_id_from_room_def seller_scan_first
      first_non_agent_none)

theorem create_product_no_seller_witness:
  "get_job_context (example_env agent_only_room (created JNull) (Inr ''ok'')) = Inr agent_only_room
   \<and> no_non_agent agent_only_room
   \<and> create_product example_format (example_env agent_only_room (created JNull) (Inr ''ok''))
        ProductAssistant_init ''Mug'' 8 12.5 3 =
      (''Error: Could not determine seller identity.'', ProductAssistant_init, [])"
proof -
  have ctx: "get_job_context (example_env agent_only_room (created JNull) (Inr ''ok'')) =
      Inr agent_only_room"
    by (simp add: example_env_def)
  have agents: "no_non_agent agent_only_room"
    by (simp add: no_non_agent_def agent_only_room_def)
  show ?thesis
    using ctx agents create_product_no_seller[OF ctx agents] by simp
qed

text \<open>
  C7. When the room has no remote participant other than agents, \<open>add_product_to_show\<close>
  returns exactly "Error: No broadcaster found in the room." and the trace is empty: no
  RPC is issued.
\<close>

theorem add_product_to_show_no_broadcaster:
  assumes "get_job_context E = Inr r" and "no_non_agent r"
  shows "add_product_to_show F E self product_id =
           (''Error: No broadcaster found in the room.'', self, [])"
  using assms
  by (simp add: add_product_to_show_def broadcaster_scan_first first_non_agent_none)

theorem add_product_to_show_no_broadcaster_witness:
  "get_job_context (example_env \<lparr>remote_participants = []\<rparr> (created JNull) (Inr ''ok'')) =
     Inr \<lparr>remote_participants = []\<rparr>
   \<and> no_non_agent \<lparr>remote_participants = []\<rparr>
   \<and> add_product_to_show example_format
        (example_env \<lparr>remote_participants = []\<rparr> (created JNull) (Inr ''ok''))
        ProductAssistant_init ''p-1'' =
      (''Error: No broadcaster found in the room.'', ProductAssistant_init, [])"
proof -
  have ctx: "get_job_context (example_env \<lparr>remote_participants = []\<rparr> (created JNull) (Inr ''ok'')) =
     Inr \<lparr>remote_participants = []\<rparr>"
    by (simp add: example_env_def)
  have agents: "no_non_agent \<lparr>remote_participants = []\<rparr>"
    by (simp add: no_non_agent_def)
  show ?thesis
    using ctx agents add_product_to_show_no_broadcaster[OF ctx agents] by simp
qed

subsection \<open>The fields of the agent\<close>

lemma add_product_to_show_state: "fst (snd (add_product_to_show F E self product_id)) = self"
  by (simp add: add_product_to_show_def Let_def split: sum.splits option.splits)

lemma created_example:
  "create_product example_format
     (example_env seller_room (created (JArr [JObj [(''id'', JStr ''p-1'')]])) (Inr ''ok''))
     ProductAssistant_init ''Mug'' 8 12.5 3 =
   (''Product created successfully. Name: Mug, Price: $12.50, Weight: 8.0oz, Quantity: 3. Product ID: p-1'',
    \<lparr>last_product_id = Some (JStr ''p-1''), last_product_name = Some ''Mug''\<rparr>,
    [HttpPost (insert_request
       (example_env seller_room (created (JArr [JObj [(''id'', JStr ''p-1'')]])) (Inr ''ok''))
       ''seller-1'' ''Mug'' 8 12.5 3)])"
  by code_simp

text \<open>
  C9. \<open>add_product_to_show\<close> returns the agent with \<open>last_product_id\<close> and
  \<open>last_product_name\<close> as they were, on its success path and on each of its failure
  paths; and when a tool call does change the agent, that call is \<open>create_product\<close>.
\<close>

theorem add_product_to_show_frame:
  "fst (snd (add_product_to_show F E self product_id)) = self
   \<and> (fst (snd (run_tool F E self call)) \<noteq> self
        \<longrightarrow> (\<exists>name weight price quantity. call = CreateProduct name weight price quantity))"
  by (cases call) (simp_all add: add_product_to_show_state)

theorem add_product_to_show_frame_witness:
  "fst (snd (run_tool example_format
       (example_env seller_room (created (JArr [JObj [(''id'', JStr ''p-1'')]])) (Inr ''ok''))
       ProductAssistant_init (CreateProduct ''Mug'' 8 12.5 3))) \<noteq> ProductAssistant_init
   \<and> (\<exists>name weight price quantity.
         CreateProduct ''Mug'' (8::real) 12.5 3 = CreateProduct name weight price quantity)
   \<and> fst (snd (add_product_to_show example_format
       (example_env seller_room (created (JArr [JObj [(''id'', JStr ''p-1'')]])) (Inr ''ok''))
       ProductAssistant_init ''p-1'')) = ProductAssistant_init"
proof -
  have changed: "fst (snd (run_tool example_format
       (example_env seller_room (created (JArr [JObj [(''id'', JStr ''p-1'')]])) (Inr ''ok''))
       ProductAssistant_init (CreateProduct ''Mug'' 8 12.5 3))) \<noteq> ProductAssistant_init"
    by (simp only: run_tool.simps created_example) (simp add: ProductAssistant_init_def)
  show ?thesis
    using changed
      add_product_to_show_frame[of example_format
        "example_env seller_room (created (JArr [JObj [(''id'', JStr ''p-1'')]])) (Inr ''ok'')"
        ProductAssistant_init "''p-1''" "CreateProduct ''Mug'' 8 12.5 3"]
    by simp
qed

subsection \<open>create_product and the persistence endpoint\<close>

lemma seller_found:
  assumes "get_seller_id_from_room E = Some seller_id" and "seller_id \<noteq> []"
  shows "create_product F E self name weight price quantity =
    (case supabase_insert_product E seller_id name weight price quantity of
       (Inl e, tr) \<Rightarrow> (''Error creating product: '' @ str_exception F e, self, tr)
     | (Inr product, tr) \<Rightarrow>
         (case get_id product of
            Inl e \<Rightarrow> (''Error creating product: '' @ str_exception F e, self, tr)
          | Inr product_id \<Rightarrow>
              (created_message F name weight price quantity product_id,
               self\<lparr>last_product_id := Some product_id, last_product_name := Some name\<rparr>,
               tr)))"
  using assms by (simp add: create_product_def)

text \<open>
  C2. When a seller is found and the endpoint answers the insert request with a status
  outside 200..299, \<open>create_product\<close> returns a string that begins with
  "Error creating product:" and the agent keeps \<open>last_product_id\<close> and
  \<open>last_product_name\<close> as they were before the call.
\<close>

theorem create_product_http_error:
  assumes "get_seller_id_from_room E = Some seller_id" and "seller_id \<noteq> []"
    and "http_post E (insert_request E seller_id name weight price quantity) = Inr resp"
    and "status_code resp < 200 \<or> 299 < status_code resp"
  shows "prefix ''Error creating product:'' (fst (create_product F E self name weight price quantity))
     \<and> fst (snd (create_product F E self name weight price quantity)) = self"
  using assms(3,4)
  by (auto simp add: seller_found[OF assms(1,2)] supabase_insert_product_def Let_def
      raise_for_status_def)

lemma seller_room_seller:
  "get_seller_id_from_room (example_env seller_room post_result rpc_result) = Some ''seller-1''"
  by (simp add: get_seller_id_from_room_def example_env_def seller_room_def)

lemma seller_room_broadcaster:
  "broadcaster_scan None (remote_participants seller_room) = Some ''seller-1''"
  by (simp add: seller_room_def)

theorem create_product_http_error_witness:
  "get_seller_id_from_room
     (example_env seller_room (Inr \<lparr>status_code = 503, json_body = Inr JNull\<rparr>) (Inr ''ok'')) =
     Some ''seller-1''
   \<and> ''seller-1'' \<noteq> []
   \<and> http_post (example_env seller_room (Inr \<lparr>status_code = 503, json_body = Inr JNull\<rparr>) (Inr ''ok''))
        (insert_request
          (example_env seller_room (Inr \<lparr>status_code = 503, json_body = Inr JNull\<rparr>) (Inr ''ok''))
          ''seller-1'' ''Mug'' 8 12.5 3) =
      Inr \<lparr>status_code = 503, json_body = Inr JNull\<rparr>
   \<and> (299::int) < 503
   \<and> prefix ''Error creating product:''
        (fst (create_product example_format
          (example_env seller_room (Inr \<lparr>status_code = 503, json_body = Inr JNull\<rparr>) (Inr ''ok''))
          \<lparr>last_product_id = Some (JStr ''p-0''), last_product_name = Some ''Cup''\<rparr>
          ''Mug'' 8 12.5 3))
   \<and> fst (snd (create_product example_format
          (example_env seller_room (Inr \<lparr>status_code = 503, json_body = Inr JNull\<rparr>) (Inr ''ok''))
          \<lparr>last_product_id = Some (JStr ''p-0''), last_product_name = Some ''Cup''\<rparr>
          ''Mug'' 8 12.5 3)) =
      \<lparr>last_product_id = Some (JStr ''p-0''), last_product_name = Some ''Cup''\<rparr>"
proof -
  let ?E = "example_env seller_room (Inr \<lparr>status_code = 503, json_body = Inr JNull\<rparr>) (Inr ''ok'')"
  have seller: "get_seller_id_from_room ?E = Some ''seller-1''"
    by (rule seller_room_seller)
  have nonempty: "''seller-1'' \<noteq> []" by simp
  have answer: "http_post ?E (insert_request ?E ''seller-1'' ''Mug'' 8 12.5 3) =
      Inr \<lparr>status_code = 503, json_body = Inr JNull\<rparr>"
    by (simp add: example_env_def)
  have status: "status_code \<lparr>status_code = 503, json_body = Inr JNull :: py_exception + real json\<rparr> < 200
      \<or> 299 < status_code \<lparr>status_code = 503, json_body = Inr JNull :: py_exception + real json\<rparr>"
    by simp
  show ?thesis
    using seller answer create_product_http_error[OF seller nonempty answer status]
    by simp
qed

subsection \<open>add_product_to_show and the RPC\<close>

lemma broadcaster_found:
  assumes "get_job_context E = Inr r"
    and "broadcaster_scan None (remote_participants r) = Some b" and "b \<noteq> []"
  shows "add_product_to_show F E self product_id =
    (case perform_rpc E (show_rpc self b product_id) of
       Inl e \<Rightarrow> (''Error adding product to show: '' @ str_exception F e, self,
                 [PerformRpc (show_rpc self b product_id)])
     | Inr response \<Rightarrow> (''Product added to the live show carousel. '' @ response, self,
                 [PerformRpc (show_rpc self b product_id)]))"
  using assms by (simp add: add_product_to_show_def Let_def)

lemma rpc_in_trace:
  assumes "PerformRpc req \<in> set (snd (snd (add_product_to_show F E self product_id)))"
  shows "\<exists>r b. get_job_context E = Inr r \<and> broadcaster_scan None (remote_participants r) = Some b
           \<and> b \<noteq> [] \<and> req = show_rpc self b product_id"
  using assms
  by (auto simp add: add_product_to_show_def Let_def split: sum.splits option.splits if_splits)

lemma rpc_calls_bound: "length (rpc_calls (snd (snd (add_product_to_show F E self product_id)))) \<le> 1"
  by (simp add: add_product_to_show_def Let_def split: sum.splits option.splits)

text \<open>
  C8. Every run of \<open>add_product_to_show\<close> issues at most one RPC. When it issues one,
  that request is the only one, its method is \<open>addProductToShow\<close>, its response timeout
  is 10 seconds, and if the RPC raises (the peer is unreachable or the timeout expires)
  the tool returns a string that begins with "Error adding product to show:" without a
  second attempt.
\<close>

theorem add_product_to_show_single_rpc:
  "length (rpc_calls (snd (snd (add_product_to_show F E self product_id)))) \<le> 1
   \<and> (\<forall>req. PerformRpc req \<in> set (snd (snd (add_product_to_show F E self product_id))) \<longrightarrow>
         rpc_calls (snd (snd (add_product_to_show F E self product_id))) = [req]
         \<and> rpc_method req = ''addProductToShow''
         \<and> response_timeout req = 10
         \<and> (\<forall>e. perform_rpc E req = Inl e \<longrightarrow>
               prefix ''Error adding product to show:''
                 (fst (add_product_to_show F E self product_id))))"
proof (intro conjI allI impI)
  show "length (rpc_calls (snd (snd (add_product_to_show F E self product_id)))) \<le> 1"
    by (rule rpc_calls_bound)
next
  fix req
  assume "PerformRpc req \<in> set (snd (snd (add_product_to_show F E self product_id)))"
  then obtain r b where found: "get_job_context E = Inr r"
      "broadcaster_scan None (remote_participants r) = Some b" "b \<noteq> []"
    and req: "req = show_rpc self b product_id"
    using rpc_in_trace by blast
  note run = broadcaster_found[OF found, of F self product_id]
  show "rpc_calls (snd (snd (add_product_to_show F E self product_id))) = [req]"
    by (simp add: run req split: sum.splits)
  show "rpc_method req = ''addProductToShow''"
    by (simp add: req show_rpc_def)
  show "response_timeout req = 10"
    by (simp add: req show_rpc_def)
  fix e
  assume "perform_rpc E req = Inl e"
  then show "prefix ''Error adding product to show:'' (fst (add_product_to_show F E self product_id))"
    by (simp add: run req)
qed

theorem add_product_to_show_single_rpc_witness:
  "PerformRpc
       (show_rpc \<lparr>last_product_id = Some (JStr ''p-1'') :: real json option,
                  last_product_name = Some ''Mug''\<rparr> ''seller-1'' ''p-1'')
     \<in> set (snd (snd (add_product_to_show example_format
           (example_env seller_room (created JNull) (Inl (RpcError ''Response timeout'')))
           \<lparr>last_product_id = Some (JStr ''p-1''), last_product_name = Some ''Mug''\<rparr> ''p-1'')))
   \<and> perform_rpc (example_env seller_room (created JNull) (Inl (RpcError ''Response timeout'')))
        (show_rpc \<lparr>last_product_id = Some (JStr ''p-1'') :: real json option,
                   last_product_name = Some ''Mug''\<rparr> ''seller-1'' ''p-1'') = Inl (RpcError ''Response timeout'')
   \<and> response_timeout
        (show_rpc \<lparr>last_product_id = Some (JStr ''p-1'') :: real json option,
                   last_product_name = Some ''Mug''\<rparr> ''seller-1'' ''p-1'') = 10
   \<and> length (rpc_calls (snd (snd (add_product_to_show example_format
           (example_env seller_room (created JNull) (Inl (RpcError ''Response timeout'')))
           \<lparr>last_product_id = Some (JStr ''p-1''), last_product_name = Some ''Mug''\<rparr> ''p-1'')))) = 1
   \<and> prefix ''Error adding product to show:''
        (fst (add_product_to_show example_format
           (example_env seller_room (created JNull) (Inl (RpcError ''Response timeout'')))
           \<lparr>last_product_id = Some (JStr ''p-1''), last_product_name = Some ''Mug''\<rparr> ''p-1''))"
proof -
  let ?E = "example_env seller_room (created JNull) (Inl (RpcError ''Response timeout''))"
  let ?self = "\<lparr>last_product_id = Some (JStr ''p-1'') :: real json option,
                 last_product_name = Some ''Mug''\<rparr>"
  let ?req = "show_rpc ?self ''seller-1'' ''p-1''"
  have ctx: "get_job_context ?E = Inr seller_room"
    by (simp add: example_env_def)
  have nonempty: "''seller-1'' \<noteq> []" by simp
  note run = broadcaster_found[OF ctx seller_room_broadcaster nonempty, of example_format ?self "''p-1''"]
  have fails: "perform_rpc ?E ?req = Inl (RpcError ''Response timeout'')"
    by (simp add: example_env_def)
  have sent: "PerformRpc ?req \<in> set (snd (snd (add_product_to_show example_format ?E ?self ''p-1'')))"
    by (simp add: run fails)
  from add_product_to_show_single_rpc[of example_format ?E ?self "''p-1''"] sent
  have once: "rpc_calls (snd (snd (add_product_to_show example_format ?E ?self ''p-1''))) = [?req]"
    and timeout: "response_timeout ?req = 10"
    and reported: "\<forall>e. perform_rpc ?E ?req = Inl e \<longrightarrow>
            prefix ''Error adding product to show:''
              (fst (add_product_to_show example_format ?E ?self ''p-1''))"
    by blast+
  have count: "length (rpc_calls (snd (snd (add_product_to_show example_format ?E ?self ''p-1'')))) = 1"
    unfolding once by simp
  from reported fails
  have message: "prefix ''Error adding product to show:''
      (fst (add_product_to_show example_format ?E ?self ''p-1''))"
    by blast
  show ?thesis
    by (intro conjI, rule sent, rule fails, rule timeout, rule count, rule message)
qed

text \<open>
  C6, as amended. When a broadcaster is found and the RPC returns, the result begins with
  "Product added to the live show carousel.", one RPC is sent to the broadcaster, and its
  payload reads as a JSON object with exactly the members \<open>productId\<close> (the given id)
  and \<open>name\<close>, where \<open>name\<close> is the last created product's name when that name is
  not empty and the literal "Product" otherwise (no product created, or a product created
  with the empty name).
\<close>

theorem add_product_to_show_success:
  assumes "get_job_context E = Inr r"
    and "broadcaster_scan None (remote_participants r) = Some b" and "b \<noteq> []"
    and "perform_rpc E (show_rpc self b product_id) = Inr response"
  shows "prefix ''Product added to the live show carousel.''
           (fst (add_product_to_show F E self product_id))
     \<and> fst (add_product_to_show F E self product_id) =
         ''Product added to the live show carousel. '' @ response
     \<and> map destination_identity (rpc_calls (snd (snd (add_product_to_show F E self product_id)))) = [b]
     \<and> map json_loads (map payload (rpc_calls (snd (snd (add_product_to_show F E self product_id))))) =
         [Some [(''productId'', product_id),
                (''name'', case last_product_name self of
                             None \<Rightarrow> ''Product''
                           | Some n \<Rightarrow> if n = [] then ''Product'' else n)]]"
  using assms(4)
  by (simp add: broadcaster_found[OF assms(1-3)] show_rpc_def json_loads_dumps name_or_Product_def)

theorem add_product_to_show_success_witness:
  "get_job_context (example_env seller_room (created JNull) (Inr ''ok'')) = Inr seller_room
   \<and> broadcaster_scan None (remote_participants seller_room) = Some ''seller-1''
   \<and> ''seller-1'' \<noteq> []
   \<and> perform_rpc (example_env seller_room (created JNull) (Inr ''ok''))
        (show_rpc \<lparr>last_product_id = Some (JStr ''p-1'') :: real json option,
                   last_product_name = Some ''Mug''\<rparr> ''seller-1'' ''p-1'') = Inr ''ok''
   \<and> fst (add_product_to_show example_format (example_env seller_room (created JNull) (Inr ''ok''))
        \<lparr>last_product_id = Some (JStr ''p-1''), last_product_name = Some ''Mug''\<rparr> ''p-1'') =
      ''Product added to the live show carousel. ok''
   \<and> map json_loads (map payload (rpc_calls (snd (snd
        (add_product_to_show example_format (example_env seller_room (created JNull) (Inr ''ok''))
           \<lparr>last_product_id = Some (JStr ''p-1''), last_product_name = Some ''Mug''\<rparr> ''p-1''))))) =
      [Some [(''productId'', ''p-1''), (''name'', ''Mug'')]]"
proof -
  let ?E = "example_env seller_room (created JNull) (Inr ''ok'')"
  let ?self = "\<lparr>last_product_id = Some (JStr ''p-1'') :: real json option,
                 last_product_name = Some ''Mug''\<rparr>"
  have ctx: "get_job_context ?E = Inr seller_room"
    by (simp add: example_env_def)
  have nonempty: "''seller-1'' \<noteq> []" by simp
  have answers: "perform_rpc ?E (show_rpc ?self ''seller-1'' ''p-1'') = Inr ''ok''"
    by (simp add: example_env_def)
  show ?thesis
    using ctx seller_room_broadcaster answers
      add_product_to_show_success[OF ctx seller_room_broadcaster nonempty answers, of example_format]
    by simp
qed

text \<open>
  C6 as stated fails for a product created with the empty name: the session holds that
  name, and the payload carries "Product" instead.
\<close>

theorem add_product_to_show_name_counterexample:
  "fst (snd (create_product example_format
       (example_env seller_room (created (JArr [JObj [(''id'', JStr ''p-1'')]])) (Inr ''ok''))
       ProductAssistant_init [] 8 12.5 3)) =
     \<lparr>last_product_id = Some (JStr ''p-1''), last_product_name = Some []\<rparr>
   \<and> fst (add_product_to_show example_format
       (example_env seller_room (created (JArr [JObj [(''id'', JStr ''p-1'')]])) (Inr ''ok''))
       \<lparr>last_product_id = Some (JStr ''p-1''), last_product_name = Some []\<rparr> ''p-1'') =
     ''Product added to the live show carousel. ok''
   \<and> map json_loads (map payload (rpc_calls (snd (snd (add_product_to_show example_format
       (example_env seller_room (created (JArr [JObj [(''id'', JStr ''p-1'')]])) (Inr ''ok''))
       \<lparr>last_product_id = Some (JStr ''p-1''), last_product_name = Some []\<rparr> ''p-1''))))) =
     [Some [(''productId'', ''p-1''), (''name'', ''Product'')]]"
proof -
  let ?E = "example_env seller_room (created (JArr [JObj [(''id'', JStr ''p-1'')]])) (Inr ''ok'')"
  let ?self = "\<lparr>last_product_id = Some (JStr ''p-1'') :: real json option,
                 last_product_name = Some []\<rparr>"
  have made: "fst (snd (create_product example_format ?E ProductAssistant_init [] 8 12.5 3)) = ?self"
    by code_simp
  have ctx: "get_job_context ?E = Inr seller_room"
    by (simp add: example_env_def)
  have nonempty: "''seller-1'' \<noteq> []" by simp
  note run = broadcaster_found[OF ctx seller_room_broadcaster nonempty, of example_format ?self "''p-1''"]
  have answers: "perform_rpc ?E (show_rpc ?self ''seller-1'' ''p-1'') = Inr ''ok''"
    by (simp add: example_env_def)
  have shown: "add_product_to_show example_format ?E ?self ''p-1'' =
      (''Product added to the live show carousel. ok'', ?self,
       [PerformRpc (show_rpc ?self ''seller-1'' ''p-1'')])"
    by (simp add: run answers)
  have reads: "json_loads (payload (show_rpc ?self ''seller-1'' ''p-1'')) =
      Some [(''productId'', ''p-1''), (''name'', ''Product'')]"
    by (simp add: show_rpc_def json_loads_dumps name_or_Product_def)
  show ?thesis
    by (simp only: made shown) (simp add: reads)
qed

subsection \<open>The payload of the insert request\<close>

lemma create_product_trace:
  assumes "get_seller_id_from_room E = Some seller_id" and "seller_id \<noteq> []"
  shows "snd (snd (create_product F E self name weight price quantity)) =
     [HttpPost (insert_request E seller_id name weight price quantity)]"
  by (simp add: seller_found[OF assms] supabase_insert_product_def Let_def split: sum.splits)

text \<open>
  C5, as amended. When a seller is found, \<open>create_product\<close> posts one request whose JSON
  payload holds the caller's fields (\<open>name\<close>, \<open>price\<close>, \<open>weight\<close>,
  \<open>quantity_in_stock\<close>, \<open>seller_id\<close>) and the fixed defaults \<open>weight_unit\<close> "oz",
  \<open>image\<close> "", empty arrays for \<open>images\<close>, \<open>colors\<close>, \<open>sizes\<close> and \<open>variants\<close>, and
  a \<open>description\<close> that is the name followed by the fixed text " - added via voice".
\<close>

theorem create_product_payload:
  assumes "get_seller_id_from_room E = Some seller_id" and "seller_id \<noteq> []"
  shows "map json_payload (http_posts (snd (snd (create_product F E self name weight price quantity)))) =
     [JObj [(''name'', JStr name),
            (''price'', JFloat price),
            (''weight'', JFloat weight),
            (''weight_unit'', JStr ''oz''),
            (''quantity_in_stock'', JInt quantity),
            (''seller_id'', JStr seller_id),
            (''image'', JStr ''''),
            (''description'', JStr (name @ '' - added via voice'')),
            (''images'', JArr []),
            (''colors'', JArr []),
            (''sizes'', JArr []),
            (''variants'', JArr [])]]"
  by (simp add: create_product_trace[OF assms] insert_request_def insert_payload_def)

theorem create_product_payload_witness:
  "get_seller_id_from_room (example_env seller_room (created JNull) (Inr ''ok'')) = Some ''seller-1''
   \<and> ''seller-1'' \<noteq> []
   \<and> map json_payload (http_posts (snd (snd (create_product example_format
        (example_env seller_room (created JNull) (Inr ''ok'')) ProductAssistant_init
        ''Mug'' 8 12.5 3)))) =
     [JObj [(''name'', JStr ''Mug''),
            (''price'', JFloat 12.5),
            (''weight'', JFloat 8),
            (''weight_unit'', JStr ''oz''),
            (''quantity_in_stock'', JInt 3),
            (''seller_id'', JStr ''seller-1''),
            (''image'', JStr ''''),
            (''description'', JStr ''Mug - added via voice''),
            (''images'', JArr []),
            (''colors'', JArr []),
            (''sizes'', JArr []),
            (''variants'', JArr [])]]"
proof -
  let ?E = "example_env seller_room (created JNull) (Inr ''ok'')"
  have seller: "get_seller_id_from_room ?E = Some ''seller-1''"
    by (rule seller_room_seller)
  have nonempty: "''seller-1'' \<noteq> []" by simp
  show ?thesis
    using seller
      create_product_payload[OF seller nonempty, where F = example_format
        and self = ProductAssistant_init and name = "''Mug''" and weight = 8 and price = "12.5"
        and quantity = 3]
    by simp
qed

text \<open>
  C5 as stated fails: for the product named "Mug" the description sent is
  "Mug - added via voice", neither the bare name nor blank.
\<close>

theorem description_suffix_counterexample:
  "sent_descriptions (snd (snd (create_product example_format
       (example_env seller_room (created (JArr [JObj [(''id'', JStr ''p-1'')]])) (Inr ''ok''))
       ProductAssistant_init ''Mug'' 8 12.5 3))) = [Some (JStr ''Mug - added via voice'')]
   \<and> sent_descriptions (snd (snd (create_product example_format
       (example_env seller_room (created (JArr [JObj [(''id'', JStr ''p-1'')]])) (Inr ''ok''))
       ProductAssistant_init ''Mug'' 8 12.5 3))) \<noteq> [Some (JStr ''Mug'')]
   \<and> sent_descriptions (snd (snd (create_product example_format
       (example_env seller_room (created (JArr [JObj [(''id'', JStr ''p-1'')]])) (Inr ''ok''))
       ProductAssistant_init ''Mug'' 8 12.5 3))) \<noteq> [Some (JStr [])]"
  by (simp only: created_example)
     (simp add: sent_descriptions_def insert_request_def insert_payload_def)

subsection \<open>Responses without a row or without an id\<close>

text \<open>
  C4, as amended. For a 2xx response whose body is an empty sequence, the persistence
  client fails with the index error of \<open>data[0]\<close> and \<open>create_product\<close> returns
  "Error creating product: list index out of range" with the agent unchanged. For a 2xx
  response whose object (the body itself, or the first element of the sequence) has no
  \<open>id\<close> member, the client returns that object and \<open>create_product\<close> reports success
  with the placeholder id "unknown", which it also stores as \<open>last_product_id\<close>.
\<close>

theorem malformed_response:
  assumes "get_seller_id_from_room E = Some seller_id" and "seller_id \<noteq> []"
    and "http_post E (insert_request E seller_id name weight price quantity) = Inr resp"
    and "200 \<le> status_code resp" and "status_code resp \<le> 299"
    and "json_body resp = Inr data"
  shows "(data = JArr [] \<longrightarrow>
            fst (supabase_insert_product E seller_id name weight price quantity) = Inl IndexError
          \<and> fst (create_product F E self name weight price quantity) =
              ''Error creating product: list index out of range''
          \<and> fst (snd (create_product F E self name weight price quantity)) = self)
     \<and> (\<forall>row. first_if_list data = Inr (JObj row) \<and> map_of row ''id'' = None \<longrightarrow>
            fst (supabase_insert_product E seller_id name weight price quantity) = Inr (JObj row)
          \<and> fst (create_product F E self name weight price quantity) =
              ''Product created successfully. Name: '' @ name @ '', Price: $'' @ format_2f F price @
              '', Weight: '' @ str_float F weight @ ''oz, Quantity: '' @ str_int quantity @
              ''. Product ID: unknown''
          \<and> fst (snd (create_product F E self name weight price quantity)) =
              \<lparr>last_product_id = Some (JStr ''unknown''), last_product_name = Some name\<rparr>)"
proof -
  have ins: "fst (supabase_insert_product E seller_id name weight price quantity) = first_if_list data"
    using assms(3-6) by (simp add: supabase_insert_product_def Let_def raise_for_status_def)
  have run: "create_product F E self name weight price quantity =
    (case first_if_list data of
       Inl e \<Rightarrow> (''Error creating product: '' @ str_exception F e, self,
                  [HttpPost (insert_request E seller_id name weight price quantity)])
     | Inr product \<Rightarrow>
         (case get_id product of
            Inl e \<Rightarrow> (''Error creating product: '' @ str_exception F e, self,
                  [HttpPost (insert_request E seller_id name weight price quantity)])
          | Inr product_id \<Rightarrow>
              (created_message F name weight price quantity product_id,
               self\<lparr>last_product_id := Some product_id, last_product_name := Some name\<rparr>,
               [HttpPost (insert_request E seller_id name weight price quantity)])))"
    using assms(3-6)
    by (simp add: seller_found[OF assms(1,2)] supabase_insert_product_def Let_def raise_for_status_def
        split: sum.splits)
  show ?thesis
    by (simp add: ins run created_message_def)
qed

theorem malformed_response_witness:
  "get_seller_id_from_room (example_env seller_room (created (JArr [])) (Inr ''ok'')) = Some ''seller-1''
   \<and> http_post (example_env seller_room (created (JArr [])) (Inr ''ok''))
        (insert_request (example_env seller_room (created (JArr [])) (Inr ''ok''))
           ''seller-1'' ''Mug'' 8 12.5 3) =
      Inr \<lparr>status_code = 201, json_body = Inr (JArr [])\<rparr>
   \<and> fst (supabase_insert_product (example_env seller_room (created (JArr [])) (Inr ''ok''))
        ''seller-1'' ''Mug'' 8 12.5 3) = Inl IndexError
   \<and> fst (create_product example_format (example_env seller_room (created (JArr [])) (Inr ''ok''))
        ProductAssistant_init ''Mug'' 8 12.5 3) =
      ''Error creating product: list index out of range''
   \<and> fst (snd (create_product example_format (example_env seller_room (created (JArr [])) (Inr ''ok''))
        ProductAssistant_init ''Mug'' 8 12.5 3)) = ProductAssistant_init"
proof -
  let ?E = "example_env seller_room (created (JArr [])) (Inr ''ok'')"
  let ?resp = "\<lparr>status_code = 201, json_body = Inr (JArr []) :: py_exception + real json\<rparr>"
  have seller: "get_seller_id_from_room ?E = Some ''seller-1''"
    by (rule seller_room_seller)
  have nonempty: "''seller-1'' \<noteq> []" by simp
  have answer: "http_post ?E (insert_request ?E ''seller-1'' ''Mug'' 8 12.5 3) = Inr ?resp"
    by (simp add: example_env_def created_def)
  have lo: "200 \<le> status_code ?resp" and hi: "status_code ?resp \<le> 299"
    and body: "json_body ?resp = Inr (JArr [])"
    by simp_all
  note handled = malformed_response[OF seller nonempty answer lo hi body,
      where F = example_format and self = ProductAssistant_init]
  from handled
  have "fst (supabase_insert_product ?E ''seller-1'' ''Mug'' 8 12.5 3) = Inl IndexError
      \<and> fst (create_product example_format ?E ProductAssistant_init ''Mug'' 8 12.5 3) =
          ''Error creating product: list index out of range''
      \<and> fst (snd (create_product example_format ?E ProductAssistant_init ''Mug'' 8 12.5 3)) =
          ProductAssistant_init"
    by blast
  with seller answer show ?thesis by blast
qed

text \<open>
  C4 as stated fails for a row without \<open>id\<close>: the client returns it, and
  \<open>create_product\<close> reports success with the id "unknown".
\<close>

theorem missing_id_counterexample:
  "fst (supabase_insert_product
       (example_env seller_room (created (JArr [JObj [(''name'', JStr ''Mug'')]])) (Inr ''ok''))
       ''seller-1'' ''Mug'' 8 12.5 3) = Inr (JObj [(''name'', JStr ''Mug'')])
   \<and> object_field (JObj [(''name'', JStr ''Mug'')] :: real json) ''id'' = None
   \<and> fst (create_product example_format
       (example_env seller_room (created (JArr [JObj [(''name'', JStr ''Mug'')]])) (Inr ''ok''))
       ProductAssistant_init ''Mug'' 8 12.5 3) =
     ''Product created successfully. Name: Mug, Price: $12.50, Weight: 8.0oz, Quantity: 3. Product ID: unknown''
   \<and> last_product_id (fst (snd (create_product example_format
       (example_env seller_room (created (JArr [JObj [(''name'', JStr ''Mug'')]])) (Inr ''ok''))
       ProductAssistant_init ''Mug'' 8 12.5 3))) = Some (JStr ''unknown'')"
  by code_simp

subsection \<open>A successful create_product\<close>

lemma str_int_nonempty: "str_int i \<noteq> []"
  by (simp add: str_int_def str_nat.simps[of "nat i"])

lemma py_str_nonempty:
  assumes "v \<noteq> JStr []" and "\<forall>x. str_float F x \<noteq> []" and "\<forall>c. str_container F c \<noteq> []"
  shows "py_str F v \<noteq> []"
  using assms by (cases v) (simp_all add: str_int_nonempty)

text \<open>
  C1, as amended. For every name, weight, price and quantity (the valid ones included:
  the code does not look at their signs), when a seller is found and the persistence call
  returns a row with an \<open>id\<close> other than the empty string, \<open>create_product\<close> returns the
  summary with the exact name, the price formatted by \<open>.2f\<close>, the weight, the quantity
  and the id as printed, which is not empty; it sets \<open>last_product_id\<close> to that id and
  \<open>last_product_name\<close> to the name, and it has made one persistence call. The two
  assumptions on \<open>F\<close> say that Python prints no float and no container as the empty
  string.
\<close>

theorem create_product_success:
  assumes "get_seller_id_from_room E = Some seller_id" and "seller_id \<noteq> []"
    and "fst (supabase_insert_product E seller_id name weight price quantity) = Inr (JObj row)"
    and "map_of row ''id'' = Some product_id" and "product_id \<noteq> JStr []"
    and "\<forall>x. str_float F x \<noteq> []" and "\<forall>c. str_container F c \<noteq> []"
  shows "fst (create_product F E self name weight price quantity) =
           ''Product created successfully. Name: '' @ name @ '', Price: $'' @ format_2f F price @
           '', Weight: '' @ str_float F weight @ ''oz, Quantity: '' @ str_int quantity @
           ''. Product ID: '' @ py_str F product_id
     \<and> py_str F product_id \<noteq> []
     \<and> fst (snd (create_product F E self name weight price quantity)) =
           \<lparr>last_product_id = Some product_id, last_product_name = Some name\<rparr>
     \<and> http_posts (snd (snd (create_product F E self name weight price quantity))) =
           [insert_request E seller_id name weight price quantity]"
proof -
  obtain tr where ins: "supabase_insert_product E seller_id name weight price quantity =
      (Inr (JObj row), tr)"
    using assms(3) by (cases "supabase_insert_product E seller_id name weight price quantity") simp
  have shown: "py_str F product_id \<noteq> []"
    by (rule py_str_nonempty[OF assms(5-7)])
  have run: "create_product F E self name weight price quantity =
      (created_message F name weight price quantity product_id,
       self\<lparr>last_product_id := Some product_id, last_product_name := Some name\<rparr>, tr)"
    using assms(4) by (simp add: seller_found[OF assms(1,2)] ins)
  have posts: "http_posts (snd (snd (create_product F E self name weight price quantity))) =
      [insert_request E seller_id name weight price quantity]"
    by (simp add: create_product_trace[OF assms(1,2)])
  show ?thesis
    using shown posts by (simp add: run created_message_def)
qed

theorem create_product_success_witness:
  "get_seller_id_from_room
     (example_env seller_room (created (JArr [JObj [(''id'', JStr ''p-1'')]])) (Inr ''ok'')) =
     Some ''seller-1''
   \<and> fst (supabase_insert_product
       (example_env seller_room (created (JArr [JObj [(''id'', JStr ''p-1'')]])) (Inr ''ok''))
       ''seller-1'' ''Mug'' 8 12.5 3) = Inr (JObj [(''id'', JStr ''p-1'')])
   \<and> map_of [(''id'', JStr ''p-1'' :: real json)] ''id'' = Some (JStr ''p-1'')
   \<and> (JStr ''p-1'' :: real json) \<noteq> JStr []
   \<and> (\<forall>x. str_float example_format x \<noteq> [])
   \<and> (\<forall>c. str_container example_format c \<noteq> [])
   \<and> fst (create_product example_format
       (example_env seller_room (created (JArr [JObj [(''id'', JStr ''p-1'')]])) (Inr ''ok''))
       ProductAssistant_init ''Mug'' 8 12.5 3) =
     ''Product created successfully. Name: Mug, Price: $12.50, Weight: 8.0oz, Quantity: 3. Product ID: p-1''
   \<and> fst (snd (create_product example_format
       (example_env seller_room (created (JArr [JObj [(''id'', JStr ''p-1'')]])) (Inr ''ok''))
       ProductAssistant_init ''Mug'' 8 12.5 3)) =
     \<lparr>last_product_id = Some (JStr ''p-1''), last_product_name = Some ''Mug''\<rparr>"
proof -
  let ?E = "example_env seller_room (created (JArr [JObj [(''id'', JStr ''p-1'')]])) (Inr ''ok'')"
  have seller: "get_seller_id_from_room ?E = Some ''seller-1''"
    by (rule seller_room_seller)
  have nonempty: "''seller-1'' \<noteq> []" by simp
  have stored: "fst (supabase_insert_product ?E ''seller-1'' ''Mug'' 8 12.5 3) =
      Inr (JObj [(''id'', JStr ''p-1'')])"
    by (simp add: supabase_insert_product_def Let_def example_env_def created_def raise_for_status_def)
  have row: "map_of [(''id'', JStr ''p-1'' :: real json)] ''id'' = Some (JStr ''p-1'')"
    by simp
  have pid: "(JStr ''p-1'' :: real json) \<noteq> JStr []" by simp
  have floats: "\<forall>x. str_float example_format x \<noteq> []"
    and containers: "\<forall>c. str_container example_format c \<noteq> []"
    by (simp_all add: example_format_def)
  have quantity: "str_int 3 = ''3''" by code_simp
  have price: "format_2f example_format 12.5 = ''12.50''"
    and weight: "str_float example_format 8 = ''8.0''"
    by (simp_all add: example_format_def)
  note made = create_product_success[OF seller nonempty stored row pid floats containers,
      where self = ProductAssistant_init]
  from made
  have message: "fst (create_product example_format ?E ProductAssistant_init ''Mug'' 8 12.5 3) =
      ''Product created successfully. Name: Mug, Price: $12.50, Weight: 8.0oz, Quantity: 3. Product ID: p-1''"
    by (simp only: quantity price weight py_str.simps) simp
  from made
  have state: "fst (snd (create_product example_format ?E ProductAssistant_init ''Mug'' 8 12.5 3)) =
      \<lparr>last_product_id = Some (JStr ''p-1''), last_product_name = Some ''Mug''\<rparr>"
    by blast
  show ?thesis
    by (intro conjI, rule seller, rule stored, rule row, rule pid, rule floats, rule containers,
        rule message, rule state)
qed

text \<open>
  C1 as stated fails when the endpoint returns the row with an empty-string id: the call
  succeeds and the summary ends with an empty product id.
\<close>

theorem empty_id_counterexample:
  "fst (supabase_insert_product
       (example_env seller_room (created (JArr [JObj [(''id'', JStr [])]])) (Inr ''ok''))
       ''seller-1'' ''Mug'' 8 12.5 3) = Inr (JObj [(''id'', JStr [])])
   \<and> fst (create_product example_format
       (example_env seller_room (created (JArr [JObj [(''id'', JStr [])]])) (Inr ''ok''))
       ProductAssistant_init ''Mug'' 8 12.5 3) =
     ''Product created successfully. Name: Mug, Price: $12.50, Weight: 8.0oz, Quantity: 3. Product ID: ''
   \<and> fst (snd (create_product example_format
       (example_env seller_room (created (JArr [JObj [(''id'', JStr [])]])) (Inr ''ok''))
       ProductAssistant_init ''Mug'' 8 12.5 3)) =
     \<lparr>last_product_id = Some (JStr []), last_product_name = Some ''Mug''\<rparr>"
  by code_simp

end
